theory Spec2Isabelle
  imports Main
begin

section \<open>Python values\<close>

text \<open>
  The view compiler \<^verbatim>\<open>List.root_xml\<close> of \<^verbatim>\<open>jenkins_jobs/modules/view_list.py\<close> receives
  a configuration that a YAML loader has already parsed: a dictionary with string keys
  whose values are scalars, lists and dictionaries. Python is dynamically typed, so the
  model keeps one universe of values and spells out what each operation of the source
  does on each kind of value. Dictionaries are association lists: their order is the
  dictionary's iteration order, and a lookup takes the first entry of a key (the keys of
  a dictionary are distinct, so there is one entry at most). Floating point numbers are
  left out of the universe; integers are unbounded, as in Python.
\<close>

datatype pyval =
    PNone
  | PBool bool
  | PInt int
  | PStr string
  | PList "pyval list"
  | PDict "(string \<times> pyval) list"

text \<open>
  The exceptions that can leave \<^verbatim>\<open>root_xml\<close>: the built-in ones that its statements
  raise, and \<^verbatim>\<open>RequiredFieldError\<close>, the error that the specification gives to the
  field-mapping applier for a required field that is missing. No statement of
  \<^verbatim>\<open>view_list.py\<close> raises the last one.
\<close>

datatype error =
    KeyError string
  | TypeError
  | AttributeError
  | NameError
  | RequiredFieldError string

text \<open>\<^verbatim>\<open>d.get(k, dflt)\<close>\<close>

definition dict_get :: "(string \<times> pyval) list \<Rightarrow> string \<Rightarrow> pyval \<Rightarrow> pyval" where
  "dict_get d k dflt = (case map_of d k of None \<Rightarrow> dflt | Some v \<Rightarrow> v)"

text \<open>
  \<^verbatim>\<open>v.get(k)\<close> on a value that need not be a dictionary: lists, strings and the other
  scalars have no attribute \<^verbatim>\<open>get\<close>.
\<close>

fun py_get :: "pyval \<Rightarrow> string \<Rightarrow> error + pyval" where
  "py_get (PDict d) k = Inr (dict_get d k PNone)"
| "py_get v k = Inl AttributeError"

text \<open>The truth value of \<^verbatim>\<open>v\<close> in \<^verbatim>\<open>'true' if v else 'false'\<close>.\<close>

fun truthy :: "pyval \<Rightarrow> bool" where
  "truthy PNone = False"
| "truthy (PBool b) = b"
| "truthy (PInt i) = (i \<noteq> 0)"
| "truthy (PStr s) = (s \<noteq> [])"
| "truthy (PList xs) = (xs \<noteq> [])"
| "truthy (PDict d) = (d \<noteq> [])"

text \<open>
  \<^verbatim>\<open>for x in v\<close>: a list yields its elements, a dictionary its keys, a string its
  characters as one-character strings; nothing else is iterable.
\<close>

fun py_iter :: "pyval \<Rightarrow> error + pyval list" where
  "py_iter (PList xs) = Inr xs"
| "py_iter (PDict d) = Inr (map (\<lambda>kv. PStr (fst kv)) d)"
| "py_iter (PStr s) = Inr (map (\<lambda>c. PStr [c]) s)"
| "py_iter v = Inl TypeError"

subsection \<open>\<^verbatim>\<open>str\<close> and \<^verbatim>\<open>repr\<close>\<close>

text \<open>
  \<^verbatim>\<open>str(v)\<close> as Python 3 computes it, with a string read as a sequence of code points
  below 256. A string is its own \<^verbatim>\<open>str\<close>; every other value prints as its \<^verbatim>\<open>repr\<close>.
\<close>

fun str_nat :: "nat \<Rightarrow> string" where
  "str_nat n = (if n < 10 then [''0123456789'' ! n]
                else str_nat (n div 10) @ [''0123456789'' ! (n mod 10)])"

definition str_int :: "int \<Rightarrow> string" where
  "str_int i = (if i < 0 then ''-'' @ str_nat (nat (- i)) else str_nat (nat i))"

definition hex2 :: "nat \<Rightarrow> string" where
  "hex2 n = [''0123456789abcdef'' ! (n div 16), ''0123456789abcdef'' ! (n mod 16)]"

definition repr_char :: "char \<Rightarrow> char \<Rightarrow> string" where
  "repr_char q c =
     (let n = (of_char c :: nat) in
      if c = q \<or> c = CHR 0x5C then [CHR 0x5C, c]
      else if c = CHR 0x09 then [CHR 0x5C, CHR ''t'']
      else if c = CHR 0x0A then [CHR 0x5C, CHR ''n'']
      else if c = CHR 0x0D then [CHR 0x5C, CHR ''r'']
      else if n < 32 \<or> n = 127 then [CHR 0x5C, CHR ''x''] @ hex2 n
      else if n < 127 then [c]
      else if n \<le> 160 \<or> n = 173 then [CHR 0x5C, CHR ''x''] @ hex2 n
      else [c])"

definition repr_str :: "string \<Rightarrow> string" where
  "repr_str s =
     (let q = (if CHR 0x27 \<in> set s \<and> CHR 0x22 \<notin> set s then CHR 0x22 else CHR 0x27)
      in [q] @ concat (map (repr_char q) s) @ [q])"

fun join :: "string \<Rightarrow> string list \<Rightarrow> string" where
  "join sep [] = []"
| "join sep [x] = x"
| "join sep (x # y # ys) = x @ sep @ join sep (y # ys)"

fun py_repr :: "pyval \<Rightarrow> string" where
  "py_repr PNone = ''None''"
| "py_repr (PBool b) = (if b then ''True'' else ''False'')"
| "py_repr (PInt i) = str_int i"
| "py_repr (PStr s) = repr_str s"
| "py_repr (PList xs) = ''['' @ join '', '' (map py_repr xs) @ '']''"
| "py_repr (PDict d) =
     ''{'' @ join '', '' (map (\<lambda>kv. repr_str (fst kv) @ '': '' @ py_repr (snd kv)) d) @ ''}''"

fun py_str :: "pyval \<Rightarrow> string" where
  "py_str (PStr s) = s"
| "py_str v = py_repr v"

section \<open>Element trees\<close>

text \<open>
  An \<^verbatim>\<open>xml.etree.ElementTree.Element\<close>: tag, attributes, text and children. The text
  attribute holds whatever object is assigned to it (\<^verbatim>\<open>None\<close> until then), so it is a
  Python value here too.
\<close>

datatype element =
  Element (el_tag: string) (el_attrib: "(string \<times> string) list") (el_text: pyval)
    (el_children: "element list")

text \<open>
  \<^verbatim>\<open>XML.SubElement(parent, ...)\<close> appends a new child to \<^verbatim>\<open>parent\<close>. The source then
  fills the child in through the reference it got back; the model appends the child once
  it is complete, which leaves the same tree.
\<close>

definition SubElement :: "element \<Rightarrow> element \<Rightarrow> element" where
  "SubElement parent child =
     Element (el_tag parent) (el_attrib parent) (el_text parent) (el_children parent @ [child])"

section \<open>Field schemas\<close>

text \<open>
  Modelled from the spec: the schema that the field-mapping applier interprets. A schema
  is an ordered list of triples (configuration key, output tag, default), and the default
  of a triple is either a value or the marker of a required field. The applier is no part
  of \<^verbatim>\<open>view_list.py\<close>; the tables that \<^verbatim>\<open>root_xml\<close> writes out for it are, and they
  give a value for every default.
\<close>

datatype default = Required | Default pyval

type_synonym mapping = "(string \<times> string \<times> default) list"

fun is_required :: "string \<times> string \<times> default \<Rightarrow> bool" where
  "is_required (key, tag, Required) = True"
| "is_required (key, tag, Default v) = False"

section \<open>The list view\<close>

text \<open>The module constant \<^verbatim>\<open>COLUMN_DICT\<close>.\<close>

definition COLUMN_DICT :: "(string \<times> string) list" where
  "COLUMN_DICT =
     [(''status'', ''hudson.views.StatusColumn''),
      (''weather'', ''hudson.views.WeatherColumn''),
      (''job'', ''hudson.views.JobColumn''),
      (''last-success'', ''hudson.views.LastSuccessColumn''),
      (''last-failure'', ''hudson.views.LastFailureColumn''),
      (''last-duration'', ''hudson.views.LastDurationColumn''),
      (''build-button'', ''hudson.views.BuildButtonColumn''),
      (''last-stable'', ''hudson.views.LastStableColumn'')]"

text \<open>The four \<^verbatim>\<open>mapping\<close> tables written out in \<^verbatim>\<open>root_xml\<close>.\<close>

definition most_recent_mapping :: mapping where
  "most_recent_mapping =
     [(''max-to-include'', ''maxToInclude'', Default (PStr ''0'')),
      (''check-start-time'', ''checkStartTime'', Default (PBool False))]"

definition build_duration_mapping :: mapping where
  "build_duration_mapping =
     [(''match-type'', ''includeExcludeTypeString'', Default (PStr ''includeMatched'')),
      (''build-duration-type'', ''buildCountTypeString'', Default (PStr ''Latest'')),
      (''amount-type'', ''amountTypeString'', Default (PStr ''Hours'')),
      (''amount'', ''amount'', Default (PStr ''0'')),
      (''less-than'', ''lessThan'', Default (PBool True)),
      (''build-duration-minutes'', ''buildDurationMinutes'', Default (PStr ''0''))]"

definition build_trend_mapping :: mapping where
  "build_trend_mapping =
     [(''match-type'', ''includeExcludeTypeString'', Default (PStr ''includeMatched'')),
      (''build-trend-type'', ''buildCountTypeString'', Default (PStr ''Latest'')),
      (''amount-type'', ''amountTypeString'', Default (PStr ''Hours'')),
      (''amount'', ''amount'', Default (PStr ''0'')),
      (''status'', ''statusTypeString'', Default (PStr ''Completed''))]"

definition job_status_mapping :: mapping where
  "job_status_mapping =
     [(''match-type'', ''includeExcludeTypeString'', Default (PStr ''includeMatched'')),
      (''unstable'', ''unstable'', Default (PBool False)),
      (''failed'', ''failed'', Default (PBool False)),
      (''aborted'', ''aborted'', Default (PBool False)),
      (''disabled'', ''disabled'', Default (PBool False)),
      (''stable'', ''stable'', Default (PBool False))]"

text \<open>
  The body shared by the four \<^verbatim>\<open>if jobfilter == ...\<close> blocks. A new child of
  \<^verbatim>\<open>jobFilters\<close> gets the plugin attribute, the filter's data is fetched with
  \<^verbatim>\<open>jobfilters.get(key)\<close>, the table is bound to \<^verbatim>\<open>mapping\<close>, and the block ends
  with the call \<^verbatim>\<open>convert_mapping_to_xml(..., fail_required=True)\<close>. The module
  imports \<^verbatim>\<open>xml.etree.ElementTree\<close> and \<^verbatim>\<open>jenkins_jobs.modules.base\<close> and nothing
  else, and it defines no function of that name, so looking the name up raises
  \<^verbatim>\<open>NameError\<close> before any argument is used: a block that is entered ends the call of
  \<^verbatim>\<open>root_xml\<close> with no tree.
\<close>

definition filter_block ::
  "element \<Rightarrow> pyval \<Rightarrow> string \<Rightarrow> string \<Rightarrow> mapping \<Rightarrow> error + element" where
  "filter_block job_filter_xml jobfilters tag key mapping =
     (let f_xml = Element tag [(''plugin'', ''view-job-filters'')] PNone []
      in case py_get jobfilters key of
           Inl e \<Rightarrow> Inl e
         | Inr f_data \<Rightarrow> Inl NameError)"

text \<open>One pass of the body of \<^verbatim>\<open>for jobfilter in jobfilters\<close>: four tests in a row.\<close>

definition jobfilter_body :: "pyval \<Rightarrow> element \<Rightarrow> pyval \<Rightarrow> error + element" where
  "jobfilter_body jobfilters x0 jobfilter =
     (case (if jobfilter = PStr ''most-recent''
            then filter_block x0 jobfilters ''hudson.views.MostRecentJobsFilter''
                   ''most-recent'' most_recent_mapping
            else Inr x0) of
        Inl e \<Rightarrow> Inl e
      | Inr x1 \<Rightarrow>
     (case (if jobfilter = PStr ''build-duration''
            then filter_block x1 jobfilters ''hudson.views.BuildDurationFilter''
                   ''build-duration'' build_duration_mapping
            else Inr x1) of
        Inl e \<Rightarrow> Inl e
      | Inr x2 \<Rightarrow>
     (case (if jobfilter = PStr ''build-trend''
            then filter_block x2 jobfilters ''hudson.views.BuildTrendFilter''
                   ''build-trend'' build_trend_mapping
            else Inr x2) of
        Inl e \<Rightarrow> Inl e
      | Inr x3 \<Rightarrow>
           (if jobfilter = PStr ''job-status''
            then filter_block x3 jobfilters ''hudson.views.JobStatusFilter''
                   ''job-status'' job_status_mapping
            else Inr x3))))"

fun jobfilters_loop :: "pyval \<Rightarrow> element \<Rightarrow> pyval list \<Rightarrow> error + element" where
  "jobfilters_loop jobfilters job_filter_xml [] = Inr job_filter_xml"
| "jobfilters_loop jobfilters job_filter_xml (jobfilter # rest) =
     (case jobfilter_body jobfilters job_filter_xml jobfilter of
        Inl e \<Rightarrow> Inl e
      | Inr x \<Rightarrow> jobfilters_loop jobfilters x rest)"

text \<open>The \<^verbatim>\<open>jobFilters\<close> element for the value of \<^verbatim>\<open>data.get('job-filters', [])\<close>.\<close>

definition jobFilters_xml :: "pyval \<Rightarrow> error + element" where
  "jobFilters_xml jobfilters =
     (case py_iter jobfilters of
        Inl e \<Rightarrow> Inl e
      | Inr keys \<Rightarrow> jobfilters_loop jobfilters (Element ''jobFilters'' [] PNone []) keys)"

text \<open>
  The \<^verbatim>\<open>jobNames\<close> element for the value of \<^verbatim>\<open>data.get('job-name', None)\<close>: the
  comparator first, then one \<^verbatim>\<open>string\<close> child per job name.
\<close>

fun jobnames_loop :: "element \<Rightarrow> pyval list \<Rightarrow> element" where
  "jobnames_loop jn_xml [] = jn_xml"
| "jobnames_loop jn_xml (jobname # rest) =
     jobnames_loop (SubElement jn_xml (Element ''string'' [] (PStr (py_str jobname)) [])) rest"

definition jobNames_xml :: "pyval \<Rightarrow> error + element" where
  "jobNames_xml jobnames =
     (let jn_xml = SubElement (Element ''jobNames'' [] PNone [])
                     (Element ''comparator''
                        [(''class'', ''hudson.util.CaseInsensitiveComparator'')] PNone [])
      in if jobnames \<noteq> PNone
         then (case py_iter jobnames of
                 Inl e \<Rightarrow> Inl e
               | Inr names \<Rightarrow> Inr (jobnames_loop jn_xml names))
         else Inr jn_xml)"

text \<open>
  \<^verbatim>\<open>column in COLUMN_DICT\<close> hashes the column, which lists and dictionaries do not
  support; a hashable value that is not one of the eight keys is not in the dictionary.
\<close>

fun column_lookup :: "pyval \<Rightarrow> error + string option" where
  "column_lookup (PStr s) = Inr (map_of COLUMN_DICT s)"
| "column_lookup (PList xs) = Inl TypeError"
| "column_lookup (PDict d) = Inl TypeError"
| "column_lookup v = Inr None"

fun columns_loop :: "element \<Rightarrow> pyval list \<Rightarrow> error + element" where
  "columns_loop c_xml [] = Inr c_xml"
| "columns_loop c_xml (column # rest) =
     (case column_lookup column of
        Inl e \<Rightarrow> Inl e
      | Inr None \<Rightarrow> columns_loop c_xml rest
      | Inr (Some t) \<Rightarrow> columns_loop (SubElement c_xml (Element t [] PNone [])) rest)"

definition columns_xml :: "pyval \<Rightarrow> error + element" where
  "columns_xml columns =
     (case py_iter columns of
        Inl e \<Rightarrow> Inl e
      | Inr cols \<Rightarrow> columns_loop (Element ''columns'' [] PNone []) cols)"

text \<open>\<^verbatim>\<open>'true' if v else 'false'\<close>\<close>

definition bool_text :: "pyval \<Rightarrow> pyval" where
  "bool_text v = PStr (if truthy v then ''true'' else ''false'')"

text \<open>
  \<^verbatim>\<open>List.root_xml(self, data)\<close>. The statements run in the order of the source; an
  exception ends the call with no tree.
\<close>

definition root_xml :: "(string \<times> pyval) list \<Rightarrow> error + element" where
  "root_xml data =
     (let root = Element ''hudson.model.ListView'' [] PNone [] in
      case map_of data ''name'' of
        None \<Rightarrow> Inl (KeyError ''name'')
      | Some name \<Rightarrow>
     (let root = SubElement root (Element ''name'' [] name []);
          desc_text = dict_get data ''description'' PNone;
          root = (if desc_text \<noteq> PNone
                  then SubElement root (Element ''description'' [] desc_text [])
                  else root);
          filterExecutors = dict_get data ''filter-executors'' (PBool False);
          root = SubElement root (Element ''filterExecutors'' [] (bool_text filterExecutors) []);
          filterQueue = dict_get data ''filter-queue'' (PBool False);
          root = SubElement root (Element ''filterQueue'' [] (bool_text filterQueue) []);
          root = SubElement root
                   (Element ''properties'' [(''class'', ''hudson.model.View$PropertyList'')]
                      PNone [])
      in
      case jobNames_xml (dict_get data ''job-name'' PNone) of
        Inl e \<Rightarrow> Inl e
      | Inr jn_xml \<Rightarrow>
     (let root = SubElement root jn_xml in
      case jobFilters_xml (dict_get data ''job-filters'' (PList [])) of
        Inl e \<Rightarrow> Inl e
      | Inr job_filter_xml \<Rightarrow>
     (let root = SubElement root job_filter_xml in
      case columns_xml (dict_get data ''columns'' (PList [])) of
        Inl e \<Rightarrow> Inl e
      | Inr c_xml \<Rightarrow>
     (let root = SubElement root c_xml;
          regex = dict_get data ''regex'' PNone;
          root = (if regex \<noteq> PNone
                  then SubElement root (Element ''includeRegex'' [] regex [])
                  else root);
          recurse = dict_get data ''recurse'' (PBool False);
          root = SubElement root (Element ''recurse'' [] (bool_text recurse) []);
          statusfilter = dict_get data ''status-filter'' PNone;
          root = (if statusfilter \<noteq> PNone
                  then SubElement root (Element ''statusFilter'' [] (bool_text statusfilter) [])
                  else root)
      in Inr root)))))"

section \<open>Observations on the result\<close>

text \<open>The definitions below are not part of the program; the theorems are stated with them.\<close>


definition children_tagged :: "string \<Rightarrow> element \<Rightarrow> element list" where
  "children_tagged t e = filter (\<lambda>c. el_tag c = t) (el_children e)"

text \<open>
  The tag of the filter element that one key of \<^verbatim>\<open>job-filters\<close> stands for, if any,
  and the four filter keys in the order of the specification.
\<close>

definition filter_tag :: "pyval \<Rightarrow> string option" where
  "filter_tag jobfilter =
     (if jobfilter = PStr ''most-recent'' then Some ''hudson.views.MostRecentJobsFilter''
      else if jobfilter = PStr ''build-duration'' then Some ''hudson.views.BuildDurationFilter''
      else if jobfilter = PStr ''build-trend'' then Some ''hudson.views.BuildTrendFilter''
      else if jobfilter = PStr ''job-status'' then Some ''hudson.views.JobStatusFilter''
      else None)"


text \<open>A child that is present exactly when its value is not \<^verbatim>\<open>None\<close>.\<close>

definition opt_child :: "string \<Rightarrow> pyval \<Rightarrow> element list" where
  "opt_child tag v = (if v \<noteq> PNone then [Element tag [] v []] else [])"

text \<open>
  The children of the root that a call returns, from the configuration, the value of
  \<^verbatim>\<open>name\<close> and the three elements that the loops build.
\<close>

definition root_children ::
  "(string \<times> pyval) list \<Rightarrow> pyval \<Rightarrow> element \<Rightarrow> element \<Rightarrow> element \<Rightarrow> element list" where
  "root_children data name jn jf c =
     [Element ''name'' [] name []] @
     opt_child ''description'' (dict_get data ''description'' PNone) @
     [Element ''filterExecutors'' []
        (bool_text (dict_get data ''filter-executors'' (PBool False))) [],
      Element ''filterQueue'' []
        (bool_text (dict_get data ''filter-queue'' (PBool False))) [],
      Element ''properties'' [(''class'', ''hudson.model.View$PropertyList'')] PNone [],
      jn, jf, c] @
     opt_child ''includeRegex'' (dict_get data ''regex'' PNone) @
     [Element ''recurse'' [] (bool_text (dict_get data ''recurse'' (PBool False))) []] @
     (if dict_get data ''status-filter'' PNone \<noteq> PNone
      then [Element ''statusFilter'' []
              (bool_text (dict_get data ''status-filter'' PNone)) []]
      else [])"

text \<open>The keys of the configuration that \<^verbatim>\<open>root_xml\<close> reads.\<close>

definition read_keys :: "string list" where
  "read_keys = [''name'', ''description'', ''filter-executors'', ''filter-queue'', ''job-name'',
                ''job-filters'', ''columns'', ''regex'', ''recurse'', ''status-filter'']"

text \<open>The triples of the four filter schemas taken together.\<close>

definition filter_mappings :: "mapping" where
  "filter_mappings =
     most_recent_mapping @ build_duration_mapping @ build_trend_mapping @ job_status_mapping"

text \<open>
  The configuration without a key, and the optional keys with the tags of their elements.
\<close>

definition del_key :: "string \<Rightarrow> (string \<times> pyval) list \<Rightarrow> (string \<times> pyval) list" where
  "del_key k data = filter (\<lambda>kv. fst kv \<noteq> k) data"

definition optional_fields :: "(string \<times> string) list" where
  "optional_fields = [(''description'', ''description''), (''regex'', ''includeRegex''),
                      (''status-filter'', ''statusFilter'')]"

text \<open>The elements of the \<^verbatim>\<open>columns\<close> element for a list of column names.\<close>

definition column_elements :: "string list \<Rightarrow> element list" where
  "column_elements names =
     map (\<lambda>t. Element t [] PNone []) (List.map_filter (map_of COLUMN_DICT) names)"

text \<open>
  The fields of the configuration that the source prints with
  \<^verbatim>\<open>'true' if v else 'false'\<close> (key, tag, default of the lookup).
\<close>

definition is_bool_text :: "pyval \<Rightarrow> bool" where
  "is_bool_text v = (v = PStr ''true'' \<or> v = PStr ''false'')"

definition bool_fields :: "(string \<times> string \<times> pyval) list" where
  "bool_fields =
     [(''filter-executors'', ''filterExecutors'', PBool False),
      (''filter-queue'', ''filterQueue'', PBool False),
      (''recurse'', ''recurse'', PBool False),
      (''status-filter'', ''statusFilter'', PNone)]"

section \<open>The loops\<close>

lemmas model_defs = root_xml_def jobNames_xml_def jobFilters_xml_def columns_xml_def
  SubElement_def dict_get_def bool_text_def Let_def

lemma py_get_Inl: "py_get v k = Inl e \<Longrightarrow> e = AttributeError"
  by (cases v) auto

lemma filter_block_Inl:
  assumes "filter_block x jobfilters tag key mapping = Inl e"
  shows "e = AttributeError \<or> e = NameError"
proof (cases "py_get jobfilters key")
  case (Inl e')
  with assms py_get_Inl [OF Inl] show ?thesis by (simp add: filter_block_def)
next
  case (Inr f_data)
  with assms show ?thesis by (simp add: filter_block_def)
qed

lemma filter_block_not_Inr: "filter_block x jobfilters tag key mapping \<noteq> Inr x'"
  by (cases "py_get jobfilters key") (simp_all add: filter_block_def)

lemma jobfilter_body_Inr:
  assumes "jobfilter_body jobfilters x jobfilter = Inr x'"
  shows "x' = x \<and> filter_tag jobfilter = None"
  using assms unfolding jobfilter_body_def filter_tag_def
  by (simp add: filter_block_not_Inr split: sum.splits if_splits)

lemma jobfilters_loop_Inr:
  "jobfilters_loop jobfilters x keys = Inr x' \<Longrightarrow>
   x' = x \<and> list_all (\<lambda>k. filter_tag k = None) keys"
proof (induction keys arbitrary: x)
  case Nil
  then show ?case by simp
next
  case (Cons k keys)
  from Cons.prems obtain x1 where b: "jobfilter_body jobfilters x k = Inr x1"
    and l: "jobfilters_loop jobfilters x1 keys = Inr x'"
    by (auto split: sum.splits)
  from jobfilter_body_Inr [OF b] Cons.IH [OF l] show ?case by simp
qed

lemma jobFilters_xml_Inr:
  assumes "jobFilters_xml jobfilters = Inr jf"
  obtains keys where "py_iter jobfilters = Inr keys"
    "list_all (\<lambda>k. filter_tag k = None) keys" "jf = Element ''jobFilters'' [] PNone []"
proof -
  from assms obtain keys where k: "py_iter jobfilters = Inr keys" and
    l: "jobfilters_loop jobfilters (Element ''jobFilters'' [] PNone []) keys = Inr jf"
    by (auto simp: jobFilters_xml_def split: sum.splits)
  from jobfilters_loop_Inr [OF l] k that show thesis by simp
qed

lemma jobnames_loop_tag: "el_tag (jobnames_loop jn names) = el_tag jn"
  by (induction names arbitrary: jn) (simp_all add: SubElement_def)

lemma jobNames_xml_tag: "jobNames_xml jobnames = Inr jn \<Longrightarrow> el_tag jn = ''jobNames''"
  by (auto simp: jobNames_xml_def Let_def jobnames_loop_tag SubElement_def
           split: if_splits sum.splits)

lemma columns_loop_tag: "columns_loop c cols = Inr c' \<Longrightarrow> el_tag c' = el_tag c"
proof (induction cols arbitrary: c)
  case Nil
  then show ?case by simp
next
  case (Cons col cols)
  then show ?case
    by (fastforce simp: SubElement_def split: sum.splits option.splits)
qed

lemma columns_xml_tag: "columns_xml columns = Inr c \<Longrightarrow> el_tag c = ''columns''"
  by (auto simp: columns_xml_def split: sum.splits dest: columns_loop_tag)

section \<open>The shape of the compiled tree\<close>

lemma root_xml_Some:
  assumes "map_of data ''name'' = Some name"
  shows "root_xml data =
     (case jobNames_xml (dict_get data ''job-name'' PNone) of
        Inl e \<Rightarrow> Inl e
      | Inr jn \<Rightarrow>
     (case jobFilters_xml (dict_get data ''job-filters'' (PList [])) of
        Inl e \<Rightarrow> Inl e
      | Inr jf \<Rightarrow>
     (case columns_xml (dict_get data ''columns'' (PList [])) of
        Inl e \<Rightarrow> Inl e
      | Inr c \<Rightarrow>
          Inr (Element ''hudson.model.ListView'' [] PNone (root_children data name jn jf c)))))"
  using assms
  by (simp add: root_xml_def Let_def SubElement_def opt_child_def root_children_def
           split: sum.splits)

lemma root_xml_Inr:
  assumes "root_xml data = Inr root"
  obtains name jn jf c where
    "map_of data ''name'' = Some name"
    "jobNames_xml (dict_get data ''job-name'' PNone) = Inr jn" "el_tag jn = ''jobNames''"
    "jobFilters_xml (dict_get data ''job-filters'' (PList [])) = Inr jf"
    "el_tag jf = ''jobFilters''"
    "columns_xml (dict_get data ''columns'' (PList [])) = Inr c" "el_tag c = ''columns''"
    "root = Element ''hudson.model.ListView'' [] PNone (root_children data name jn jf c)"
proof -
  from assms obtain name where n: "map_of data ''name'' = Some name"
    by (cases "map_of data ''name''") (simp_all add: root_xml_def)
  from assms obtain jn jf c where
    jn: "jobNames_xml (dict_get data ''job-name'' PNone) = Inr jn" and
    jf: "jobFilters_xml (dict_get data ''job-filters'' (PList [])) = Inr jf" and
    c: "columns_xml (dict_get data ''columns'' (PList [])) = Inr c" and
    r: "root = Element ''hudson.model.ListView'' [] PNone (root_children data name jn jf c)"
    unfolding root_xml_Some [OF n] by (auto split: sum.splits)
  from jf have "el_tag jf = ''jobFilters''" by (rule jobFilters_xml_Inr) simp
  with n jn jf c r jobNames_xml_tag [OF jn] columns_xml_tag [OF c] that show thesis
    by blast
qed

lemma opt_child_tags: "t' \<noteq> t \<Longrightarrow> filter (\<lambda>c. el_tag c = t') (opt_child t v) = []"
  by (simp add: opt_child_def)

section \<open>The exceptions of a call\<close>

lemma jobfilter_body_Inl:
  assumes "jobfilter_body jobfilters x jobfilter = Inl e"
  shows "e = AttributeError \<or> e = NameError"
  using assms unfolding jobfilter_body_def
  by (simp split: sum.splits if_splits) (blast dest: filter_block_Inl)+

lemma jobfilters_loop_Inl:
  "jobfilters_loop jobfilters x keys = Inl e \<Longrightarrow> e = AttributeError \<or> e = NameError"
proof (induction keys arbitrary: x)
  case Nil
  then show ?case by simp
next
  case (Cons k keys)
  show ?case
  proof (cases "jobfilter_body jobfilters x k")
    case (Inl e')
    with Cons.prems jobfilter_body_Inl [OF Inl] show ?thesis by simp
  next
    case (Inr x1)
    with Cons.prems have "jobfilters_loop jobfilters x1 keys = Inl e" by simp
    from Cons.IH [OF this] show ?thesis .
  qed
qed

lemma py_iter_Inl: "py_iter v = Inl e \<Longrightarrow> e = TypeError"
  by (cases v) auto

lemma jobFilters_xml_Inl:
  assumes "jobFilters_xml jobfilters = Inl e"
  shows "e = TypeError \<or> e = AttributeError \<or> e = NameError"
proof (cases "py_iter jobfilters")
  case (Inl e')
  with assms py_iter_Inl [OF Inl] show ?thesis by (simp add: jobFilters_xml_def)
next
  case (Inr keys)
  with assms have "jobfilters_loop jobfilters (Element ''jobFilters'' [] PNone []) keys = Inl e"
    by (simp add: jobFilters_xml_def)
  from jobfilters_loop_Inl [OF this] show ?thesis by blast
qed

lemma jobNames_xml_Inl: "jobNames_xml jobnames = Inl e \<Longrightarrow> e = TypeError"
  by (cases "py_iter jobnames")
     (auto simp: jobNames_xml_def Let_def split: if_splits dest: py_iter_Inl)

lemma column_lookup_Inl: "column_lookup v = Inl e \<Longrightarrow> e = TypeError"
  by (cases v) auto

lemma columns_loop_Inl: "columns_loop c cols = Inl e \<Longrightarrow> e = TypeError"
proof (induction cols arbitrary: c)
  case Nil
  then show ?case by simp
next
  case (Cons col cols)
  show ?case
  proof (cases "column_lookup col")
    case (Inl e')
    with Cons.prems column_lookup_Inl [OF Inl] show ?thesis by simp
  next
    case (Inr t)
    with Cons.prems Cons.IH show ?thesis by (cases t) auto
  qed
qed

lemma columns_xml_Inl: "columns_xml columns = Inl e \<Longrightarrow> e = TypeError"
  by (cases "py_iter columns")
     (auto simp: columns_xml_def dest: py_iter_Inl columns_loop_Inl)

lemma root_xml_Inl_present:
  assumes "map_of data ''name'' = Some name" and "root_xml data = Inl e"
  shows "e = TypeError \<or> e = AttributeError \<or> e = NameError"
  using assms(2) unfolding root_xml_Some [OF assms(1)]
  by (auto split: sum.splits dest: jobNames_xml_Inl jobFilters_xml_Inl columns_xml_Inl)

lemma root_xml_Inl:
  assumes "root_xml data = Inl e"
  shows "e = KeyError ''name'' \<or> e = TypeError \<or> e = AttributeError \<or> e = NameError"
proof (cases "map_of data ''name''")
  case None
  with assms show ?thesis by (simp add: root_xml_def)
next
  case (Some name)
  from root_xml_Inl_present [OF Some assms] show ?thesis by blast
qed

section \<open>End-to-end examples\<close>

text \<open>
  C4. The configuration that holds only \<^verbatim>\<open>name = "v1"\<close> compiles to a root whose
  children are, in order: \<^verbatim>\<open>name\<close> with text \<^verbatim>\<open>v1\<close>, \<^verbatim>\<open>filterExecutors\<close> and
  \<^verbatim>\<open>filterQueue\<close> with text \<^verbatim>\<open>false\<close>, the fixed \<^verbatim>\<open>properties\<close> element,
  \<^verbatim>\<open>jobNames\<close> holding only the comparator, an empty \<^verbatim>\<open>jobFilters\<close>, an empty
  \<^verbatim>\<open>columns\<close>, and \<^verbatim>\<open>recurse\<close> with text \<^verbatim>\<open>false\<close>. There is no
  \<^verbatim>\<open>description\<close>, \<^verbatim>\<open>includeRegex\<close> or \<^verbatim>\<open>statusFilter\<close> child.
\<close>

theorem compile_name_only:
  "root_xml [(''name'', PStr ''v1'')] =
   Inr (Element ''hudson.model.ListView'' [] PNone
     [Element ''name'' [] (PStr ''v1'') [],
      Element ''filterExecutors'' [] (PStr ''false'') [],
      Element ''filterQueue'' [] (PStr ''false'') [],
      Element ''properties'' [(''class'', ''hudson.model.View$PropertyList'')] PNone [],
      Element ''jobNames'' [] PNone
        [Element ''comparator'' [(''class'', ''hudson.util.CaseInsensitiveComparator'')]
           PNone []],
      Element ''jobFilters'' [] PNone [],
      Element ''columns'' [] PNone [],
      Element ''recurse'' [] (PStr ''false'') []])"
  by (simp add: model_defs)

text \<open>
  C5. For the configuration with \<^verbatim>\<open>name = "v2"\<close> and \<^verbatim>\<open>job-filters\<close> holding
  \<^verbatim>\<open>most-recent\<close> with \<^verbatim>\<open>max-to-include = 5\<close> the specification promises a tree
  whose \<^verbatim>\<open>jobFilters\<close> element has the most-recent filter element with
  \<^verbatim>\<open>maxToInclude\<close> of text \<^verbatim>\<open>5\<close> and \<^verbatim>\<open>checkStartTime\<close> of text
  \<^verbatim>\<open>false\<close>. The call enters the \<^verbatim>\<open>most-recent\<close> block, reaches the unbound name
  \<^verbatim>\<open>convert_mapping_to_xml\<close> and ends with \<^verbatim>\<open>NameError\<close>: no tree is returned.
\<close>

theorem compile_most_recent_five_raises_NameError:
  "root_xml [(''name'', PStr ''v2''),
             (''job-filters'', PDict [(''most-recent'', PDict [(''max-to-include'', PInt 5)])])] =
   Inl NameError"
  by (simp add: model_defs jobfilter_body_def filter_block_def)

section \<open>The order of the filter elements\<close>




section \<open>Required fields\<close>

lemma no_required_mappings:
  "\<not> list_ex is_required most_recent_mapping" "\<not> list_ex is_required build_duration_mapping"
  "\<not> list_ex is_required build_trend_mapping" "\<not> list_ex is_required job_status_mapping"
  by (simp_all add: most_recent_mapping_def build_duration_mapping_def
        build_trend_mapping_def job_status_mapping_def)

text \<open>
  C2, as the specification states it: a filter block that omits a field whose schema
  default is the required marker makes the call fail with \<^verbatim>\<open>RequiredFieldError\<close>, and
  at least one field of the filter schemas has that marker. No triple of the four tables
  in \<^verbatim>\<open>root_xml\<close> has it: every default is a value.
\<close>

theorem filter_schemas_have_no_required_field:
  "\<not> list_ex is_required filter_mappings"
  using no_required_mappings by (simp add: filter_mappings_def)

text \<open>
  C2, amended: no triple of the four filter schemas has the required marker as its default,
  so no filter block can omit a required field, and no call of \<^verbatim>\<open>root_xml\<close> fails
  with \<^verbatim>\<open>RequiredFieldError\<close>.
\<close>

theorem no_filter_field_is_required:
  "\<not> list_ex is_required filter_mappings \<and>
   root_xml data \<noteq> Inl (RequiredFieldError key)"
proof
  show "\<not> list_ex is_required filter_mappings"
    using no_required_mappings by (simp add: filter_mappings_def)
  show "root_xml data \<noteq> Inl (RequiredFieldError key)"
    using root_xml_Inl [of data "RequiredFieldError key"] by auto
qed

section \<open>The key \<^verbatim>\<open>name\<close>\<close>

text \<open>
  C3. A configuration without the key \<^verbatim>\<open>name\<close> makes the call fail, at its first
  statement \<^verbatim>\<open>data['name']\<close>, with the \<^verbatim>\<open>KeyError\<close> of that key (the error that the
  specification calls \<^verbatim>\<open>MissingFieldError\<close>), and no tree is returned. No other key
  is required: a call fails with a \<^verbatim>\<open>KeyError\<close> only for \<^verbatim>\<open>name\<close> and only when it is
  absent, and the configuration that holds nothing but \<^verbatim>\<open>name\<close> compiles. In a returned
  tree the first child is the only \<^verbatim>\<open>name\<close> element, and its text is the configured
  value as it is.
\<close>

theorem missing_name_is_the_only_key_error:
  "(map_of data ''name'' = None \<longrightarrow> root_xml data = Inl (KeyError ''name'')) \<and>
   (root_xml data = Inl (KeyError k) \<longrightarrow> k = ''name'' \<and> map_of data ''name'' = None) \<and>
   (\<exists>root. root_xml [(''name'', v)] = Inr root) \<and>
   (map_of data ''name'' = Some v \<longrightarrow> root_xml data = Inr root \<longrightarrow>
      children_tagged ''name'' root = [Element ''name'' [] v []] \<and>
      hd (el_children root) = Element ''name'' [] v [])"
proof (intro conjI impI)
  show "root_xml data = Inl (KeyError ''name'')" if "map_of data ''name'' = None"
    using that by (simp add: root_xml_def)
  show "k = ''name''" if "root_xml data = Inl (KeyError k)"
    using root_xml_Inl [OF that] by simp
  show "map_of data ''name'' = None" if "root_xml data = Inl (KeyError k)"
  proof (cases "map_of data ''name''")
    case (Some name)
    from root_xml_Inl_present [OF Some that] show ?thesis by simp
  qed simp
  show "\<exists>root. root_xml [(''name'', v)] = Inr root"
    by (simp add: model_defs)
next
  assume n: "map_of data ''name'' = Some v" and r: "root_xml data = Inr root"
  from r obtain name jn jf c where
    n': "map_of data ''name'' = Some name" and
    t: "el_tag jn = ''jobNames''" "el_tag jf = ''jobFilters''" "el_tag c = ''columns''" and
    root: "root = Element ''hudson.model.ListView'' [] PNone (root_children data name jn jf c)"
    by (rule root_xml_Inr)
  from n n' have "name = v" by simp
  then show "children_tagged ''name'' root = [Element ''name'' [] v []]"
    by (simp add: root root_children_def children_tagged_def opt_child_tags t)
  from \<open>name = v\<close> show "hd (el_children root) = Element ''name'' [] v []"
    by (simp add: root root_children_def)
qed

theorem missing_name_is_the_only_key_error_witness:
  "root_xml [] = Inl (KeyError ''name'') \<and>
   (\<exists>root. root_xml [(''name'', PStr ''v1'')] = Inr root \<and>
      children_tagged ''name'' root = [Element ''name'' [] (PStr ''v1'') []] \<and>
      hd (el_children root) = Element ''name'' [] (PStr ''v1'') [])"
proof -
  have a: "root_xml [] = Inl (KeyError ''name'')"
    using missing_name_is_the_only_key_error [of "[]" "''name''"] by simp
  have "\<exists>root. root_xml [(''name'', PStr ''v1'')] = Inr root"
    by (simp add: model_defs)
  then obtain root where r: "root_xml [(''name'', PStr ''v1'')] = Inr root" ..
  have b: "children_tagged ''name'' root = [Element ''name'' [] (PStr ''v1'') []] \<and>
      hd (el_children root) = Element ''name'' [] (PStr ''v1'') []"
    using missing_name_is_the_only_key_error [of "[(''name'', PStr ''v1'')]" "''name''" "PStr ''v1''" root] r by simp
  show ?thesis
    by (rule conjI [OF a]) (rule exI [of _ root], rule conjI [OF r b])
qed

section \<open>Optional children\<close>

text \<open>
  C6. Without the key \<^verbatim>\<open>description\<close> a returned tree has no \<^verbatim>\<open>description\<close> child;
  with a string for \<^verbatim>\<open>description\<close>, the empty string included, it has exactly one,
  right after \<^verbatim>\<open>name\<close>, whose text is that string.
\<close>

theorem description_presence_and_value:
  "(map_of data ''description'' = None \<longrightarrow> root_xml data = Inr root \<longrightarrow>
      children_tagged ''description'' root = []) \<and>
   (map_of data ''description'' = Some (PStr s) \<longrightarrow> root_xml data = Inr root \<longrightarrow>
      children_tagged ''description'' root = [Element ''description'' [] (PStr s) []] \<and>
      el_children root ! 1 = Element ''description'' [] (PStr s) [])"
proof (intro conjI impI)
  assume r: "root_xml data = Inr root"
  from r obtain name jn jf c where
    t: "el_tag jn = ''jobNames''" "el_tag jf = ''jobFilters''" "el_tag c = ''columns''" and
    root: "root = Element ''hudson.model.ListView'' [] PNone (root_children data name jn jf c)"
    by (rule root_xml_Inr)
  show "children_tagged ''description'' root = []" if "map_of data ''description'' = None"
    using that
    by (simp add: root root_children_def children_tagged_def opt_child_def dict_get_def t)
  show "children_tagged ''description'' root = [Element ''description'' [] (PStr s) []]"
    if "map_of data ''description'' = Some (PStr s)"
    using that
    by (simp add: root root_children_def children_tagged_def opt_child_def dict_get_def t)
  show "el_children root ! 1 = Element ''description'' [] (PStr s) []"
    if "map_of data ''description'' = Some (PStr s)"
    using that
    by (simp add: root root_children_def opt_child_def dict_get_def)
qed

theorem description_presence_and_value_witness:
  "(\<exists>root. root_xml [(''name'', PStr ''v'')] = Inr root \<and>
      children_tagged ''description'' root = []) \<and>
   (\<exists>root. root_xml [(''name'', PStr ''v''), (''description'', PStr '''')] = Inr root \<and>
      children_tagged ''description'' root = [Element ''description'' [] (PStr '''') []] \<and>
      el_children root ! 1 = Element ''description'' [] (PStr '''') [])"
proof -
  have "\<exists>root. root_xml [(''name'', PStr ''v'')] = Inr root"
    by (simp add: model_defs)
  then obtain r1 where r1: "root_xml [(''name'', PStr ''v'')] = Inr r1" ..
  have a: "children_tagged ''description'' r1 = []"
    using description_presence_and_value [of "[(''name'', PStr ''v'')]" r1] r1 by simp
  have "\<exists>root. root_xml [(''name'', PStr ''v''), (''description'', PStr '''')] = Inr root"
    by (simp add: model_defs)
  then obtain r2 where
    r2: "root_xml [(''name'', PStr ''v''), (''description'', PStr '''')] = Inr r2" ..
  have b: "children_tagged ''description'' r2 = [Element ''description'' [] (PStr '''') []] \<and>
      el_children r2 ! 1 = Element ''description'' [] (PStr '''') []"
    using description_presence_and_value [of "[(''name'', PStr ''v''), (''description'', PStr '''')]" r2 "''''"] r2
    by simp
  show ?thesis
    by (rule conjI) (rule exI [of _ r1], rule conjI [OF r1 a], rule exI [of _ r2],
        rule conjI [OF r2 b])
qed


lemma map_of_del_key: "map_of (del_key k data) k' = (if k' = k then None else map_of data k')"
  by (induction data) (auto simp: del_key_def)

lemma dict_get_cong: "map_of c1 k = map_of c2 k \<Longrightarrow> dict_get c1 k = dict_get c2 k"
  by (simp add: dict_get_def fun_eq_iff)

lemma dict_get_del_key:
  "dict_get (del_key k data) k' d = (if k' = k then d else dict_get data k' d)"
  by (simp add: dict_get_def map_of_del_key)

lemma root_xml_cong_get:
  assumes n: "map_of c1 ''name'' = map_of c2 ''name''"
    and e: "dict_get c1 ''description'' PNone = dict_get c2 ''description'' PNone"
      "dict_get c1 ''filter-executors'' (PBool False) = dict_get c2 ''filter-executors'' (PBool False)"
      "dict_get c1 ''filter-queue'' (PBool False) = dict_get c2 ''filter-queue'' (PBool False)"
      "dict_get c1 ''job-name'' PNone = dict_get c2 ''job-name'' PNone"
      "dict_get c1 ''job-filters'' (PList []) = dict_get c2 ''job-filters'' (PList [])"
      "dict_get c1 ''columns'' (PList []) = dict_get c2 ''columns'' (PList [])"
      "dict_get c1 ''regex'' PNone = dict_get c2 ''regex'' PNone"
      "dict_get c1 ''recurse'' (PBool False) = dict_get c2 ''recurse'' (PBool False)"
      "dict_get c1 ''status-filter'' PNone = dict_get c2 ''status-filter'' PNone"
  shows "root_xml c1 = root_xml c2"
  unfolding root_xml_def n e ..

lemma root_xml_del_none:
  assumes "map_of data k = Some PNone"
    and "k = ''description'' \<or> k = ''regex'' \<or> k = ''status-filter''"
  shows "root_xml data = root_xml (del_key k data)"
proof -
  from assms(1) have g: "dict_get data k PNone = PNone"
    by (simp add: dict_get_def)
  from assms(2) show ?thesis
  proof (elim disjE)
    assume k: "k = ''description''"
    show ?thesis
      by (rule root_xml_cong_get)
         (simp_all add: k map_of_del_key dict_get_del_key g [unfolded k])
  next
    assume k: "k = ''regex''"
    show ?thesis
      by (rule root_xml_cong_get)
         (simp_all add: k map_of_del_key dict_get_del_key g [unfolded k])
  next
    assume k: "k = ''status-filter''"
    show ?thesis
      by (rule root_xml_cong_get)
         (simp_all add: k map_of_del_key dict_get_del_key g [unfolded k])
  qed
qed

lemma optional_fields_cases:
  assumes "(k, t) \<in> set optional_fields"
  shows "(k = ''description'' \<and> t = ''description'') \<or> (k = ''regex'' \<and> t = ''includeRegex'') \<or>
         (k = ''status-filter'' \<and> t = ''statusFilter'')"
  using assms by (simp add: optional_fields_def)

lemma none_no_child:
  assumes r: "root_xml data = Inr root" and m: "map_of data k = Some PNone"
    and kt: "(k = ''description'' \<and> t = ''description'') \<or> (k = ''regex'' \<and> t = ''includeRegex'') \<or>
         (k = ''status-filter'' \<and> t = ''statusFilter'')"
  shows "children_tagged t root = []"
proof -
  from r obtain name jn jf c where
    tg: "el_tag jn = ''jobNames''" "el_tag jf = ''jobFilters''" "el_tag c = ''columns''" and
    root: "root = Element ''hudson.model.ListView'' [] PNone (root_children data name jn jf c)"
    by (rule root_xml_Inr)
  from m have g: "dict_get data k PNone = PNone"
    by (simp add: dict_get_def)
  from kt show ?thesis
  proof (elim disjE conjE)
    assume k: "k = ''description''" "t = ''description''"
    show ?thesis
      by (simp add: k root root_children_def children_tagged_def opt_child_def tg g [unfolded k])
  next
    assume k: "k = ''regex''" "t = ''includeRegex''"
    show ?thesis
      by (simp add: k root root_children_def children_tagged_def opt_child_def tg g [unfolded k])
  next
    assume k: "k = ''status-filter''" "t = ''statusFilter''"
    show ?thesis
      by (simp add: k root root_children_def children_tagged_def opt_child_def tg g [unfolded k])
  qed
qed

text \<open>
  C10. For \<^verbatim>\<open>description\<close>, \<^verbatim>\<open>regex\<close> and \<^verbatim>\<open>status-filter\<close> the test is
  \<^verbatim>\<open>is not None\<close> on the stored value: a configuration that holds one of these keys
  with the value \<^verbatim>\<open>None\<close> gives the same result as the configuration without the key,
  and a returned tree has no element for it.
\<close>

theorem null_valued_optional_key_is_as_absent:
  assumes "(k, t) \<in> set optional_fields" and "map_of data k = Some PNone"
  shows "root_xml data = root_xml (del_key k data) \<and>
         (root_xml data = Inr root \<longrightarrow> children_tagged t root = [])"
proof (intro conjI impI)
  note kt = optional_fields_cases [OF assms(1)]
  from kt show "root_xml data = root_xml (del_key k data)"
    by (intro root_xml_del_none [OF assms(2)]) blast
  show "children_tagged t root = []" if "root_xml data = Inr root"
    by (rule none_no_child [OF that assms(2) kt])
qed

theorem null_valued_optional_key_is_as_absent_witness:
  "root_xml [(''name'', PStr ''v''), (''description'', PNone), (''regex'', PStr ''a.*'')] =
   root_xml [(''name'', PStr ''v''), (''regex'', PStr ''a.*'')] \<and>
   (\<exists>root. root_xml [(''name'', PStr ''v''), (''description'', PNone), (''regex'', PStr ''a.*'')]
        = Inr root \<and> children_tagged ''description'' root = [])"
proof -
  let ?cfg = "[(''name'', PStr ''v''), (''description'', PNone), (''regex'', PStr ''a.*'')]"
  have m: "(''description'', ''description'') \<in> set optional_fields"
    "map_of ?cfg ''description'' = Some PNone"
    by (simp_all add: optional_fields_def)
  have "\<exists>root. root_xml ?cfg = Inr root"
    by (simp add: model_defs)
  then obtain root where r: "root_xml ?cfg = Inr root" ..
  note c = null_valued_optional_key_is_as_absent [OF m, of root]
  from c have a: "root_xml ?cfg = root_xml (del_key ''description'' ?cfg)" ..
  from c r have b: "children_tagged ''description'' root = []" by blast
  have d: "del_key ''description'' ?cfg = [(''name'', PStr ''v''), (''regex'', PStr ''a.*'')]"
    by (simp add: del_key_def)
  show ?thesis
    by (rule conjI [OF a [unfolded d]]) (rule exI [of _ root], rule conjI [OF r b])
qed


section \<open>Determinism\<close>

text \<open>
  C9. The model is a function of the configuration with no other argument and no state,
  so two calls on equal inputs give the same result. The result depends on the
  configuration only through the lookups of the ten keys that \<^verbatim>\<open>root_xml\<close> reads: two
  configurations that agree on them give the same tree or the same error.
\<close>

theorem root_xml_depends_only_on_read_keys:
  assumes "list_all (\<lambda>k. map_of c1 k = map_of c2 k) read_keys"
  shows "root_xml c1 = root_xml c2"
proof -
  from assms have n: "map_of c1 ''name'' = map_of c2 ''name''"
    and m: "map_of c1 ''description'' = map_of c2 ''description''"
      "map_of c1 ''filter-executors'' = map_of c2 ''filter-executors''"
      "map_of c1 ''filter-queue'' = map_of c2 ''filter-queue''"
      "map_of c1 ''job-name'' = map_of c2 ''job-name''"
      "map_of c1 ''job-filters'' = map_of c2 ''job-filters''"
      "map_of c1 ''columns'' = map_of c2 ''columns''"
      "map_of c1 ''regex'' = map_of c2 ''regex''"
      "map_of c1 ''recurse'' = map_of c2 ''recurse''"
      "map_of c1 ''status-filter'' = map_of c2 ''status-filter''"
    by (simp_all add: read_keys_def)
  note e = m [THEN dict_get_cong]
  show ?thesis
    by (rule root_xml_cong_get) (simp_all only: n e)
qed

theorem root_xml_depends_only_on_read_keys_witness:
  "root_xml [(''name'', PStr ''v''), (''recurse'', PBool True), (''view-type'', PStr ''list'')] =
   root_xml [(''recurse'', PBool True), (''name'', PStr ''v'')]"
  by (rule root_xml_depends_only_on_read_keys) (simp add: read_keys_def)



section \<open>Columns\<close>

lemma columns_loop_names:
  "columns_loop c (map PStr names) =
     Inr (Element (el_tag c) (el_attrib c) (el_text c) (el_children c @ column_elements names))"
proof (induction names arbitrary: c)
  case Nil
  then show ?case by (simp add: column_elements_def List.map_filter_simps)
next
  case (Cons n names)
  show ?case
  proof (cases "map_of COLUMN_DICT n")
    case None
    then show ?thesis
      by (simp add: Cons.IH column_elements_def List.map_filter_simps)
  next
    case (Some t)
    then show ?thesis
      by (simp add: Cons.IH column_elements_def List.map_filter_simps SubElement_def)
  qed
qed

lemma columns_xml_names:
  "columns_xml (PList (map PStr names)) = Inr (Element ''columns'' [] PNone (column_elements names))"
  by (simp add: columns_xml_def columns_loop_names)

text \<open>
  C8. The registry \<^verbatim>\<open>COLUMN_DICT\<close> has the eight keys status, weather, job,
  last-success, last-failure, last-duration, build-button and last-stable. For every list
  of column names the \<^verbatim>\<open>columns\<close> element is built without error: it holds one
  childless element per recognised name, with the tag the registry gives, in the order of
  the list, and nothing for a name that the registry does not know. That element is the
  \<^verbatim>\<open>columns\<close> child of the tree that a call returns.
\<close>

theorem columns_resolved_in_order:
  "map fst COLUMN_DICT =
     [''status'', ''weather'', ''job'', ''last-success'', ''last-failure'', ''last-duration'',
      ''build-button'', ''last-stable''] \<and>
   columns_xml (PList (map PStr names)) =
     Inr (Element ''columns'' [] PNone (column_elements names)) \<and>
   (root_xml data = Inr root \<longrightarrow> map_of data ''columns'' = Some (PList (map PStr names)) \<longrightarrow>
      children_tagged ''columns'' root = [Element ''columns'' [] PNone (column_elements names)])"
proof (intro conjI impI)
  show "map fst COLUMN_DICT =
     [''status'', ''weather'', ''job'', ''last-success'', ''last-failure'', ''last-duration'',
      ''build-button'', ''last-stable'']"
    by (simp add: COLUMN_DICT_def)
  show "columns_xml (PList (map PStr names)) =
     Inr (Element ''columns'' [] PNone (column_elements names))"
    by (rule columns_xml_names)
next
  assume r: "root_xml data = Inr root"
    and m: "map_of data ''columns'' = Some (PList (map PStr names))"
  from r obtain name jn jf c where
    tg: "el_tag jn = ''jobNames''" "el_tag jf = ''jobFilters''" and
    c: "columns_xml (dict_get data ''columns'' (PList [])) = Inr c" and
    root: "root = Element ''hudson.model.ListView'' [] PNone (root_children data name jn jf c)"
    by (rule root_xml_Inr)
  from m have "dict_get data ''columns'' (PList []) = PList (map PStr names)"
    by (simp add: dict_get_def)
  with c have c': "c = Element ''columns'' [] PNone (column_elements names)"
    by (simp add: columns_xml_names)
  show "children_tagged ''columns'' root = [Element ''columns'' [] PNone (column_elements names)]"
    by (simp add: root root_children_def children_tagged_def opt_child_tags tg c')
qed

theorem columns_resolved_in_order_witness:
  "\<exists>root. root_xml [(''name'', PStr ''v''),
                     (''columns'', PList [PStr ''job'', PStr ''bogus'', PStr ''status''])] = Inr root \<and>
     children_tagged ''columns'' root =
       [Element ''columns'' [] PNone
          [Element ''hudson.views.JobColumn'' [] PNone [],
           Element ''hudson.views.StatusColumn'' [] PNone []]]"
proof -
  let ?cfg = "[(''name'', PStr ''v''),
               (''columns'', PList [PStr ''job'', PStr ''bogus'', PStr ''status''])]"
  have "\<exists>root. root_xml ?cfg = Inr root"
    by (simp add: model_defs COLUMN_DICT_def)
  then obtain root where r: "root_xml ?cfg = Inr root" ..
  have m: "map_of ?cfg ''columns'' = Some (PList (map PStr [''job'', ''bogus'', ''status'']))"
    by simp
  from columns_resolved_in_order [of "[''job'', ''bogus'', ''status'']" ?cfg root] r m
  have "children_tagged ''columns'' root =
          [Element ''columns'' [] PNone (column_elements [''job'', ''bogus'', ''status''])]"
    by blast
  then have b: "children_tagged ''columns'' root =
       [Element ''columns'' [] PNone
          [Element ''hudson.views.JobColumn'' [] PNone [],
           Element ''hudson.views.StatusColumn'' [] PNone []]]"
    by (simp add: column_elements_def COLUMN_DICT_def List.map_filter_simps)
  show ?thesis
    by (rule exI [of _ root]) (rule conjI [OF r b])
qed


section \<open>Boolean fields\<close>

lemma bool_text_is_bool: "is_bool_text (bool_text v)"
  by (simp add: bool_text_def is_bool_text_def)

lemma root_children_tagged:
  assumes tg: "el_tag jn = ''jobNames''" "el_tag jf = ''jobFilters''" "el_tag cx = ''columns''"
  shows
    "filter (\<lambda>c. el_tag c = ''filterExecutors'') (root_children data name jn jf cx) =
       [Element ''filterExecutors'' [] (bool_text (dict_get data ''filter-executors'' (PBool False))) []]"
    "filter (\<lambda>c. el_tag c = ''filterQueue'') (root_children data name jn jf cx) =
       [Element ''filterQueue'' [] (bool_text (dict_get data ''filter-queue'' (PBool False))) []]"
    "filter (\<lambda>c. el_tag c = ''recurse'') (root_children data name jn jf cx) =
       [Element ''recurse'' [] (bool_text (dict_get data ''recurse'' (PBool False))) []]"
    "filter (\<lambda>c. el_tag c = ''statusFilter'') (root_children data name jn jf cx) =
       (if dict_get data ''status-filter'' PNone \<noteq> PNone
        then [Element ''statusFilter'' [] (bool_text (dict_get data ''status-filter'' PNone)) []]
        else [])"
  by (simp_all add: root_children_def opt_child_tags tg)


lemma bool_field_children:
  assumes r: "root_xml data = Inr root" and kt: "(k, t, dflt) \<in> set bool_fields"
    and c: "c \<in> set (children_tagged t root)"
  shows "c = Element t [] (bool_text (dict_get data k dflt)) []"
proof -
  from r obtain name jn jf cx where
    tg: "el_tag jn = ''jobNames''" "el_tag jf = ''jobFilters''" "el_tag cx = ''columns''" and
    root: "root = Element ''hudson.model.ListView'' [] PNone (root_children data name jn jf cx)"
    by (rule root_xml_Inr)
  note ft = root_children_tagged [OF tg, of data name]
  from c have c': "c \<in> set (filter (\<lambda>c. el_tag c = t) (root_children data name jn jf cx))"
    by (simp add: children_tagged_def root)
  from kt have
    "(k, t, dflt) = (''filter-executors'', ''filterExecutors'', PBool False) \<or>
     (k, t, dflt) = (''filter-queue'', ''filterQueue'', PBool False) \<or>
     (k, t, dflt) = (''recurse'', ''recurse'', PBool False) \<or>
     (k, t, dflt) = (''status-filter'', ''statusFilter'', PNone)"
    by (simp add: bool_fields_def)
  then show ?thesis
  proof (elim disjE)
    assume e: "(k, t, dflt) = (''filter-executors'', ''filterExecutors'', PBool False)"
    then have k: "k = ''filter-executors''" "t = ''filterExecutors''" "dflt = PBool False"
      by simp_all
    from c' show ?thesis unfolding k ft by simp
  next
    assume e: "(k, t, dflt) = (''filter-queue'', ''filterQueue'', PBool False)"
    then have k: "k = ''filter-queue''" "t = ''filterQueue''" "dflt = PBool False"
      by simp_all
    from c' show ?thesis unfolding k ft by simp
  next
    assume e: "(k, t, dflt) = (''recurse'', ''recurse'', PBool False)"
    then have k: "k = ''recurse''" "t = ''recurse''" "dflt = PBool False"
      by simp_all
    from c' show ?thesis unfolding k ft by simp
  next
    assume e: "(k, t, dflt) = (''status-filter'', ''statusFilter'', PNone)"
    then have k: "k = ''status-filter''" "t = ''statusFilter''" "dflt = PNone"
      by simp_all
    from c' show ?thesis unfolding k ft by (simp split: if_splits)
  qed
qed

text \<open>
  The four fields that \<^verbatim>\<open>root_xml\<close> prints itself have the text \<^verbatim>\<open>true\<close> or
  \<^verbatim>\<open>false\<close> in every returned tree, by the truth value of the configured value or of
  the default.
\<close>

lemma root_boolean_fields:
  assumes "(k, t, dflt) \<in> set bool_fields" and "root_xml data = Inr root"
    and "c \<in> set (children_tagged t root)"
  shows "c = Element t [] (PStr (if truthy (dict_get data k dflt) then ''true'' else ''false'')) []"
    and "is_bool_text (el_text c)"
proof -
  have c: "c = Element t [] (bool_text (dict_get data k dflt)) []"
    by (rule bool_field_children [OF assms(2) assms(1) assms(3)])
  then show "c = Element t [] (PStr (if truthy (dict_get data k dflt) then ''true'' else ''false'')) []"
    by (simp only: bool_text_def)
  have "el_text c = bool_text (dict_get data k dflt)"
    by (simp add: c)
  then show "is_bool_text (el_text c)"
    by (simp only: bool_text_is_bool)
qed

text \<open>
  C7. The specification promises the text \<^verbatim>\<open>true\<close> or \<^verbatim>\<open>false\<close> for every boolean
  field, the boolean fields of the filter blocks included. A configuration whose
  \<^verbatim>\<open>job-status\<close> block sets \<^verbatim>\<open>unstable\<close> to true enters that block, reaches the
  unbound name \<^verbatim>\<open>convert_mapping_to_xml\<close> and ends with \<^verbatim>\<open>NameError\<close>: no element
  is made for the field.
\<close>

theorem boolean_filter_field_raises_NameError:
  "root_xml [(''name'', PStr ''v''), (''filter-executors'', PBool True),
             (''job-filters'', PDict [(''job-status'', PDict [(''unstable'', PBool True)])])] =
   Inl NameError"
  by (simp add: model_defs jobfilter_body_def filter_block_def)

end
